theory Spec2Isabelle
  imports Complex_Main "HOL-Library.Sublist"
begin

section \<open>TextTutor: a shallow embedding of app.py\<close>

text \<open>
  The application is one Python module, \<^verbatim>\<open>app.py\<close>, run by Streamlit: every user
  interaction re-runs \<^verbatim>\<open>main()\<close> from the top, and only \<^verbatim>\<open>st.session_state\<close> survives
  from one run to the next. The functions of the module are embedded one by one, under
  their own names. What the module imports (PyPDF2, LangChain, the embedding and
  language-model back ends, the HTML templates) is not part of the module; the
  behaviour of those collaborators enters the model as the fields of a record of
  services, so that every theorem about the module holds for every behaviour of them.

  A Python \<^verbatim>\<open>str\<close> is modelled as a \<^typ>\<open>string\<close>, one \<^typ>\<open>char\<close> for one character
  (so the model covers texts of code points below 256, and \<^const>\<open>length\<close> is Python's
  \<^verbatim>\<open>len\<close>). An exception is a value of type \<open>exn\<close>; a call that may raise returns
  \<open>exn + 'a\<close>, with \<^const>\<open>Inl\<close> for the exception.
\<close>

subsection \<open>Exceptions and the objects of the libraries\<close>

datatype exn =
    AttributeError string
  | IndexError
  | Raised string

text \<open>
  \<open>AttributeError k\<close> is what \<^verbatim>\<open>st.session_state.k\<close> raises when the key \<open>k\<close> was never
  set; \<open>IndexError\<close> is an out-of-range list access; \<open>Raised n\<close> is an exception of class
  \<open>n\<close> raised inside a library or a remote service.

  The objects the module builds are modelled by the arguments they are built from.
\<close>

datatype embeddings = HuggingFaceInstructEmbeddings (model_name: string)

datatype vector_store = FAISS (texts: "string list") (embedding: embeddings)

record model_kwargs =
  temperature :: rat
  max_length :: int

datatype llm = HuggingFaceHub (repo_id: string) (kwargs: model_kwargs)

datatype message = HumanMessage (content: string) | AIMessage (content: string)

record buffer_memory =
  memory_key :: string
  return_messages :: bool
  messages :: "message list"

record chain =
  llm :: llm
  retriever :: vector_store
  memory :: buffer_memory

text \<open>
  The request handed to the language model, as the specification's generation service
  takes it: the question, the retrieved chunks and the conversation so far.
\<close>

record prompt =
  prompt_question :: string
  retrieved_context :: "string list"
  history :: "message list"

text \<open>
  The collaborators. \<open>'f\<close> is the type of an uploaded file, \<open>'p\<close> that of a page of
  a PDF reader. A constructor of a library object either raises or returns the
  object; the three \<open>_raises\<close> fields say which.
\<close>

record ('f, 'p) services =
  PdfReader :: "'f \<Rightarrow> exn + 'p list"
  extract_text :: "'p \<Rightarrow> exn + string"
  embeddings_raises :: "string \<Rightarrow> exn option"
  from_texts_raises :: "string list \<Rightarrow> embeddings \<Rightarrow> exn option"
  hub_raises :: "string \<Rightarrow> model_kwargs \<Rightarrow> exn option"
  similarity_search :: "vector_store \<Rightarrow> string \<Rightarrow> exn + string list"
  generate :: "llm \<Rightarrow> prompt \<Rightarrow> exn + string"

subsection \<open>get_pdf_text (app.py, lines 12 to 22)\<close>

text \<open>
  \<^verbatim>\<open>
  def get_pdf_text(pdf_files):
      text = ""
      for pdf in pdf_files:
          pdf_reader = PdfReader(pdf)
          all_pages = pdf_reader.pages
          for page in all_pages:
              text += page.extract_text()
      return text
  \<close>
  The two loops are recursions over the list they iterate, with \<open>text\<close> as the
  accumulator. An exception of \<^verbatim>\<open>PdfReader\<close> or of \<^verbatim>\<open>extract_text\<close> is not caught, so
  it ends the function.
\<close>

fun pages_loop :: "('f, 'p) services \<Rightarrow> string \<Rightarrow> 'p list \<Rightarrow> exn + string" where
  "pages_loop sv text [] = Inr text"
| "pages_loop sv text (page # all_pages) =
     (case extract_text sv page of
        Inl e \<Rightarrow> Inl e
      | Inr t \<Rightarrow> pages_loop sv (text @ t) all_pages)"

fun pdf_loop :: "('f, 'p) services \<Rightarrow> string \<Rightarrow> 'f list \<Rightarrow> exn + string" where
  "pdf_loop sv text [] = Inr text"
| "pdf_loop sv text (pdf # pdf_files) =
     (case PdfReader sv pdf of
        Inl e \<Rightarrow> Inl e
      | Inr all_pages \<Rightarrow>
          (case pages_loop sv text all_pages of
             Inl e \<Rightarrow> Inl e
           | Inr text' \<Rightarrow> pdf_loop sv text' pdf_files))"

definition get_pdf_text :: "('f, 'p) services \<Rightarrow> 'f list \<Rightarrow> exn + string" where
  "get_pdf_text sv pdf_files = pdf_loop sv [] pdf_files"


subsection \<open>The text splitter\<close>

text \<open>
  Modelled from the spec: the class \<^verbatim>\<open>CharacterTextSplitter\<close> that \<^verbatim>\<open>get_text_chunks\<close>
  instantiates and calls is LangChain's (\<^verbatim>\<open>langchain.text_splitter\<close>) and is not among
  the sources. The definitions from \<open>isspace\<close> to \<open>split_text\<close> follow the chunker of
  the specification (section 4.2): the text is split on the separator, the units are
  packed greedily, in order, into chunks of at most \<open>chunk_size\<close> characters, a unit is
  never cut (so a unit longer than \<open>chunk_size\<close> gives a chunk longer than
  \<open>chunk_size\<close>), an overlap is carried from each chunk into the next, and the empty
  text gives no chunk. They do so in the way the library's \<^verbatim>\<open>split_text\<close> and
  \<^verbatim>\<open>_merge_splits\<close> do: empty units are dropped, the units of a chunk are joined
  with the separator and the chunk is stripped of white space at both ends (a chunk that
  is empty then is not emitted), and the overlap carried forward is made of whole units,
  the longest run of trailing units of the chunk whose joined length is at most
  \<open>chunk_overlap\<close> and that leaves room for the next unit. In outline, with the
  options that \<^verbatim>\<open>get_text_chunks\<close> leaves at their defaults resolved:
  \<^verbatim>\<open>
  def split_text(self, text):
      splits = _split_text(text, self._separator)      # text.split(separator), no ""
      return self._merge_splits(splits, self._separator)

  def _join_docs(self, docs, separator):
      text = separator.join(docs).strip()
      return None if text == "" else text

  def _merge_splits(self, splits, separator):
      separator_len = len(separator)
      docs = []; current_doc = []; total = 0
      for d in splits:
          _len = len(d)
          if total + _len + (separator_len if len(current_doc) > 0 else 0) > self._chunk_size:
              if len(current_doc) > 0:
                  doc = self._join_docs(current_doc, separator)
                  if doc is not None:
                      docs.append(doc)
                  while total > self._chunk_overlap or (
                      total + _len + (separator_len if len(current_doc) > 0 else 0)
                      > self._chunk_size and total > 0):
                      total -= len(current_doc[0]) + (
                          separator_len if len(current_doc) > 1 else 0)
                      current_doc = current_doc[1:]
          current_doc.append(d)
          total += _len + (separator_len if len(current_doc) > 1 else 0)
      doc = self._join_docs(current_doc, separator)
      if doc is not None:
          docs.append(doc)
      return docs
  \<close>
\<close>

definition isspace :: "char \<Rightarrow> bool" where
  "isspace c = (of_char c \<in> {9, 10, 11, 12, 13, 28, 29, 30, 31, 32, 133, 160 :: nat})"

definition strip :: "string \<Rightarrow> string" where
  "strip s = rev (dropWhile isspace (rev (dropWhile isspace s)))"

fun join :: "string \<Rightarrow> string list \<Rightarrow> string" where
  "join sep [] = []"
| "join sep [d] = d"
| "join sep (d # d' # ds) = d @ sep @ join sep (d' # ds)"

text \<open>
  \<^verbatim>\<open>text.split(sep)\<close> for a non-empty \<open>sep\<close>: the occurrences of \<open>sep\<close> are found from
  the left and do not overlap. \<open>k\<close> counts the characters of a separator just found
  that are still to be skipped, \<open>cur\<close> is the unit being read.
\<close>

fun split_from :: "nat \<Rightarrow> string \<Rightarrow> string \<Rightarrow> string \<Rightarrow> string list" where
  "split_from k sep cur [] = [cur]"
| "split_from k sep cur (c # cs) =
     (if 0 < k then split_from (k - 1) sep cur cs
      else if prefix sep (c # cs) then cur # split_from (length sep - 1) sep [] cs
      else split_from 0 sep (cur @ [c]) cs)"

definition split_units :: "string \<Rightarrow> string \<Rightarrow> string list" where
  "split_units text sep =
     filter (\<lambda>s. s \<noteq> [])
       (if sep \<noteq> [] then split_from 0 sep [] text else map (\<lambda>c. [c]) text)"

definition join_docs :: "string list \<Rightarrow> string \<Rightarrow> string option" where
  "join_docs docs sep =
     (if strip (join sep docs) = [] then None else Some (strip (join sep docs)))"

text \<open>What \<^verbatim>\<open>docs.append(doc)\<close> under \<^verbatim>\<open>if doc is not None\<close> adds to \<open>docs\<close>.\<close>

definition emitted :: "string list \<Rightarrow> string \<Rightarrow> string list" where
  "emitted current_doc sep =
     (case join_docs current_doc sep of None \<Rightarrow> [] | Some doc \<Rightarrow> [doc])"

text \<open>
  The \<^verbatim>\<open>while\<close> loop. \<^verbatim>\<open>current_doc[0]\<close> raises on an empty list; the loop never gets
  there (lemma \<open>keep_popping_total\<close> below), but the branch is part of the code.
\<close>

fun keep_popping ::
  "int \<Rightarrow> int \<Rightarrow> int \<Rightarrow> int \<Rightarrow> string list \<Rightarrow> int \<Rightarrow> exn + string list \<times> int" where
  "keep_popping chunk_size chunk_overlap separator_len len [] tot =
     (if tot > chunk_overlap \<or> (tot + len > chunk_size \<and> tot > 0)
      then Inl IndexError
      else Inr ([], tot))"
| "keep_popping chunk_size chunk_overlap separator_len len (d0 # ds) tot =
     (if tot > chunk_overlap \<or> (tot + len + separator_len > chunk_size \<and> tot > 0)
      then keep_popping chunk_size chunk_overlap separator_len len ds
             (tot - (int (length d0) + (if ds \<noteq> [] then separator_len else 0)))
      else Inr (d0 # ds, tot))"

text \<open>
  The \<^verbatim>\<open>for\<close> loop, with \<open>docs\<close>, \<open>current_doc\<close> and \<open>tot\<close> as accumulators; the
  first equation is the code after the loop.
\<close>

fun merge_loop ::
  "int \<Rightarrow> int \<Rightarrow> string \<Rightarrow> string list \<Rightarrow> string list \<Rightarrow> string list \<Rightarrow> int \<Rightarrow> exn + string list" where
  "merge_loop chunk_size chunk_overlap sep [] docs current_doc tot =
     Inr (docs @ emitted current_doc sep)"
| "merge_loop chunk_size chunk_overlap sep (d # splits) docs current_doc tot =
     (if tot + int (length d) + (if current_doc \<noteq> [] then int (length sep) else 0) > chunk_size
      then
        (if current_doc \<noteq> [] then
           (case keep_popping chunk_size chunk_overlap (int (length sep)) (int (length d))
                   current_doc tot of
              Inl e \<Rightarrow> Inl e
            | Inr (current_doc', tot') \<Rightarrow>
                merge_loop chunk_size chunk_overlap sep splits
                  (docs @ emitted current_doc sep) (current_doc' @ [d])
                  (tot' + int (length d) + (if current_doc' \<noteq> [] then int (length sep) else 0)))
         else
           merge_loop chunk_size chunk_overlap sep splits docs (current_doc @ [d])
             (tot + int (length d) + (if current_doc \<noteq> [] then int (length sep) else 0)))
      else
        merge_loop chunk_size chunk_overlap sep splits docs (current_doc @ [d])
          (tot + int (length d) + (if current_doc \<noteq> [] then int (length sep) else 0)))"

text \<open>
  For stating how consecutive chunks overlap, the same loop once more, recording
  instead of each chunk the pair \<open>(k, current_doc)\<close> it is made from: the units
  joined into the chunk and the number \<open>k\<close> of them, at the front, that were kept from
  the chunk before. \<open>chunks_of\<close> turns the pairs into the chunks (lemma
  \<open>merge_loop_groups\<close> below: this is what \<open>merge_loop\<close> returns), \<open>fresh_units\<close>
  lists the units that were not carried over, and \<open>carries_over g h\<close> says that the
  units carried into \<open>h\<close> are trailing units of \<open>g\<close>, that their joined length is at
  most \<open>chunk_overlap\<close>, and that \<open>h\<close> holds a unit more than those.
\<close>

fun group_loop ::
  "int \<Rightarrow> int \<Rightarrow> string \<Rightarrow> string list \<Rightarrow> (nat \<times> string list) list \<Rightarrow> nat \<Rightarrow> string list \<Rightarrow> int \<Rightarrow>
   exn + (nat \<times> string list) list" where
  "group_loop chunk_size chunk_overlap sep [] groups k current_doc tot =
     Inr (groups @ [(k, current_doc)])"
| "group_loop chunk_size chunk_overlap sep (d # splits) groups k current_doc tot =
     (if tot + int (length d) + (if current_doc \<noteq> [] then int (length sep) else 0) > chunk_size
      then
        (if current_doc \<noteq> [] then
           (case keep_popping chunk_size chunk_overlap (int (length sep)) (int (length d))
                   current_doc tot of
              Inl e \<Rightarrow> Inl e
            | Inr (current_doc', tot') \<Rightarrow>
                group_loop chunk_size chunk_overlap sep splits
                  (groups @ [(k, current_doc)]) (length current_doc') (current_doc' @ [d])
                  (tot' + int (length d) + (if current_doc' \<noteq> [] then int (length sep) else 0)))
         else
           group_loop chunk_size chunk_overlap sep splits groups k (current_doc @ [d])
             (tot + int (length d) + (if current_doc \<noteq> [] then int (length sep) else 0)))
      else
        group_loop chunk_size chunk_overlap sep splits groups k (current_doc @ [d])
          (tot + int (length d) + (if current_doc \<noteq> [] then int (length sep) else 0)))"




record splitter =
  separator :: string
  chunk_size :: int
  chunk_overlap :: int

definition merge_splits :: "splitter \<Rightarrow> string list \<Rightarrow> string \<Rightarrow> exn + string list" where
  "merge_splits sp splits sep = merge_loop (chunk_size sp) (chunk_overlap sp) sep splits [] [] 0"

definition split_text :: "splitter \<Rightarrow> string \<Rightarrow> exn + string list" where
  "split_text sp text = merge_splits sp (split_units text (separator sp)) (separator sp)"

subsection \<open>get_text_chunks (app.py, lines 30 to 41)\<close>

text \<open>
  \<^verbatim>\<open>
  def get_text_chunks(raw_text):
      text_splitter = CharacterTextSplitter(
          separator="\n", chunk_size=1000, chunk_overlap=200, length_function=len)
      chunks_array = text_splitter.split_text(raw_text)
      return chunks_array
  \<close>
\<close>

definition get_text_chunks :: "string \<Rightarrow> exn + string list" where
  "get_text_chunks raw_text =
     split_text \<lparr> separator = [CHR 0x0A], chunk_size = 1000, chunk_overlap = 200 \<rparr> raw_text"


subsection \<open>get_vector_store and get_convo_chain (app.py, lines 24 to 28 and 43 to 54)\<close>

text \<open>
  \<^verbatim>\<open>
  def get_vector_store(text_chunks):
      embeddings = HuggingFaceInstructEmbeddings(model_name="hkunlp/instructor-xl")
      vector_store = FAISS.from_texts(texts=text_chunks, embedding=embeddings)
      return vector_store

  def get_convo_chain(vector_store):
      llm = HuggingFaceHub(repo_id="google/flan-t5-xxl",
                           model_kwargs={"temperature":0.5, "max_length":512})
      memory = ConversationBufferMemory(memory_key='chat_history', return_messages=True)
      convo_chain = ConversationalRetrievalChain.from_llm(
          llm=llm, retriever=vector_store.as_retriever(), memory=memory)
      return convo_chain
  \<close>
  A buffer memory just built holds no message.
\<close>

definition get_vector_store :: "('f, 'p) services \<Rightarrow> string list \<Rightarrow> exn + vector_store" where
  "get_vector_store sv text_chunks =
     (case embeddings_raises sv ''hkunlp/instructor-xl'' of
        Some e \<Rightarrow> Inl e
      | None \<Rightarrow>
          (case from_texts_raises sv text_chunks
                  (HuggingFaceInstructEmbeddings ''hkunlp/instructor-xl'') of
             Some e \<Rightarrow> Inl e
           | None \<Rightarrow>
               Inr (FAISS text_chunks (HuggingFaceInstructEmbeddings ''hkunlp/instructor-xl''))))"

definition get_convo_chain :: "('f, 'p) services \<Rightarrow> vector_store \<Rightarrow> exn + chain" where
  "get_convo_chain sv vector_store =
     (case hub_raises sv ''google/flan-t5-xxl'' \<lparr> temperature = 1 / 2, max_length = 512 \<rparr> of
        Some e \<Rightarrow> Inl e
      | None \<Rightarrow>
          Inr \<lparr> llm = HuggingFaceHub ''google/flan-t5-xxl''
                        \<lparr> temperature = 1 / 2, max_length = 512 \<rparr>,
                retriever = vector_store,
                memory = \<lparr> memory_key = ''chat_history'', return_messages = True,
                           messages = [] \<rparr> \<rparr>)"

subsection \<open>Calling the conversation chain\<close>

text \<open>
  Modelled from the spec: \<^verbatim>\<open>ConversationalRetrievalChain.__call__\<close>, which
  \<^verbatim>\<open>handle_user_input\<close> invokes as \<^verbatim>\<open>st.session_state.convo_chain({'question': ...})\<close>,
  is LangChain's and is not among the sources. \<open>chain_call\<close> is the operation \<open>ask\<close>
  of the specification (section 4.4): retrieve the chunks relevant to the question from
  the index; build the request from those chunks, the whole conversation history and
  the question; call the generation service once; only when it answers, append the turn
  (the question, then the answer) to the history; return the answer with the updated
  history. A failure of retrieval or of generation leaves the chain as it was. The first
  component of the result lists the requests sent to the generation service.
\<close>

record response =
  response_question :: string
  response_chat_history :: "message list"
  answer :: string

definition chain_call ::
  "('f, 'p) services \<Rightarrow> chain \<Rightarrow> string \<Rightarrow> prompt list \<times> (exn + chain \<times> response)" where
  "chain_call sv c question =
     (case similarity_search sv (retriever c) question of
        Inl e \<Rightarrow> ([], Inl e)
      | Inr chunks \<Rightarrow>
          (case generate sv (llm c)
                  \<lparr> prompt_question = question, retrieved_context = chunks,
                    history = messages (memory c) \<rparr> of
             Inl e \<Rightarrow>
               ([\<lparr> prompt_question = question, retrieved_context = chunks,
                    history = messages (memory c) \<rparr>], Inl e)
           | Inr a \<Rightarrow>
               ([\<lparr> prompt_question = question, retrieved_context = chunks,
                    history = messages (memory c) \<rparr>],
                Inr (c\<lparr> memory := (memory c)\<lparr> messages :=
                          messages (memory c) @ [HumanMessage question, AIMessage a] \<rparr> \<rparr>,
                     \<lparr> response_question = question,
                       response_chat_history =
                         messages (memory c) @ [HumanMessage question, AIMessage a],
                       answer = a \<rparr>))))"


subsection \<open>The session state and handle_user_input (app.py, lines 56 to 70)\<close>

text \<open>
  \<^verbatim>\<open>st.session_state\<close> is a dictionary with two keys. A field is \<open>None\<close> when its key
  has not been set; \<open>convo_chain = Some None\<close> is the key set to Python's \<^verbatim>\<open>None\<close>.
\<close>

record session =
  convo_chain :: "chain option option"
  chat_history :: "message list option"

text \<open>The three strings of the module \<^verbatim>\<open>htmlTemplates\<close>, which is not among the sources.\<close>

record templates =
  css :: string
  bot_template :: string
  user_template :: string

datatype ui = Write string | WriteHtml string

text \<open>
  What a run of a function leaves behind: the session state, the calls of \<^verbatim>\<open>st.write\<close>
  in order, the requests sent to the generation service, and the exception that ended
  the run, if one did. An exception does not undo the assignments made before it.
\<close>

record run =
  state :: session
  written :: "ui list"
  requests :: "prompt list"
  raised :: "exn option"

text \<open>\<^verbatim>\<open>s.replace(old, new)\<close>; \<open>k\<close> is as in \<open>split_from\<close>.\<close>

fun replace_from :: "nat \<Rightarrow> string \<Rightarrow> string \<Rightarrow> string \<Rightarrow> string" where
  "replace_from k old new [] = []"
| "replace_from k old new (c # cs) =
     (if 0 < k then replace_from (k - 1) old new cs
      else if prefix old (c # cs) then new @ replace_from (length old - 1) old new cs
      else c # replace_from 0 old new cs)"

definition replace :: "string \<Rightarrow> string \<Rightarrow> string \<Rightarrow> string" where
  "replace s old new =
     (if old = [] then new @ concat (map (\<lambda>c. c # new) s) else replace_from 0 old new s)"

text \<open>
  \<^verbatim>\<open>
  def handle_user_input(user_input):
      if not st.session_state.convo_chain:
          st.write("Please upload a PDF first!")
      else:
          response = st.session_state.convo_chain({'question': user_input})
          st.session_state.chat_history = response['chat_history']
          for i, message in enumerate(st.session_state.chat_history):
              if i % 2 == 0:
                  st.write(user_template.replace("{{MSG}}", message.content),
                           unsafe_allow_html=True)
              else:
                  st.write(bot_template.replace("{{MSG}}", message.content),
                           unsafe_allow_html=True)
  \<close>
\<close>

fun render_loop :: "templates \<Rightarrow> nat \<Rightarrow> message list \<Rightarrow> ui list" where
  "render_loop tp i [] = []"
| "render_loop tp i (message # ms) =
     (if i mod 2 = 0
      then WriteHtml (replace (user_template tp) ''{{MSG}}'' (content message))
      else WriteHtml (replace (bot_template tp) ''{{MSG}}'' (content message)))
     # render_loop tp (i + 1) ms"

definition handle_user_input ::
  "('f, 'p) services \<Rightarrow> templates \<Rightarrow> string \<Rightarrow> session \<Rightarrow> run" where
  "handle_user_input sv tp user_input st =
     (case convo_chain st of
        None \<Rightarrow>
          \<lparr> state = st, written = [], requests = [],
            raised = Some (AttributeError ''convo_chain'') \<rparr>
      | Some None \<Rightarrow>
          \<lparr> state = st, written = [Write ''Please upload a PDF first!''], requests = [],
            raised = None \<rparr>
      | Some (Some c) \<Rightarrow>
          (case chain_call sv c user_input of
             (sent, Inl e) \<Rightarrow>
               \<lparr> state = st, written = [], requests = sent, raised = Some e \<rparr>
           | (sent, Inr (c', resp)) \<Rightarrow>
               \<lparr> state = st\<lparr> convo_chain := Some (Some c'),
                               chat_history := Some (response_chat_history resp) \<rparr>,
                 written = render_loop tp 0 (response_chat_history resp),
                 requests = sent, raised = None \<rparr>))"

subsection \<open>main (app.py, lines 73 to 119)\<close>

text \<open>
  One run of the script. What the widgets return in this run is the event:
  \<^verbatim>\<open>st.text_input\<close> the text of the question box, \<^verbatim>\<open>st.file_uploader\<close> the files in
  the uploader, \<^verbatim>\<open>st.button("Upload")\<close> whether this run was started by a click on the
  button.
  \<^verbatim>\<open>
  def main():
      user_input = st.text_input("Ask TextTutor...")
      if user_input:
          handle_user_input(user_input)
      st.write(css, unsafe_allow_html=True)
      load_dotenv()
      if "convo_chain" not in st.session_state:
          st.session_state.convo_chain = None
      if "chat_history" not in st.session_state:
          st.session_state.convo_chain = None
      with st.sidebar:
          pdf_files = st.file_uploader("Upload your texts or PDFs", accept_multiple_files=True)
          if st.button("Upload"):
              with st.spinner("Processing may take a few minutes"):
                  raw_text = get_pdf_text(pdf_files)
                  text_chunks = get_text_chunks(raw_text)
                  vector_store = get_vector_store(text_chunks)
                  st.session_state.convo_chain = get_convo_chain(vector_store)
  \<close>
  \<open>initialize\<close> is the two \<^verbatim>\<open>if ... not in st.session_state\<close> statements (lines 90 to
  93), \<open>upload\<close> the body of \<^verbatim>\<open>if st.button("Upload")\<close> (lines 107 to 119).
\<close>

record 'f event =
  user_input :: string
  pdf_files :: "'f list"
  upload_clicked :: bool

definition initialize :: "session \<Rightarrow> session" where
  "initialize st =
     (let st1 = (if convo_chain st = None then st\<lparr> convo_chain := Some None \<rparr> else st)
      in if chat_history st1 = None then st1\<lparr> convo_chain := Some None \<rparr> else st1)"

definition upload :: "('f, 'p) services \<Rightarrow> 'f list \<Rightarrow> session \<Rightarrow> session \<times> exn option" where
  "upload sv files st =
     (case get_pdf_text sv files of
        Inl e \<Rightarrow> (st, Some e)
      | Inr raw_text \<Rightarrow>
          (case get_text_chunks raw_text of
             Inl e \<Rightarrow> (st, Some e)
           | Inr text_chunks \<Rightarrow>
               (case get_vector_store sv text_chunks of
                  Inl e \<Rightarrow> (st, Some e)
                | Inr vector_store \<Rightarrow>
                    (case get_convo_chain sv vector_store of
                       Inl e \<Rightarrow> (st, Some e)
                     | Inr c \<Rightarrow> (st\<lparr> convo_chain := Some (Some c) \<rparr>, None)))))"

definition main :: "('f, 'p) services \<Rightarrow> templates \<Rightarrow> 'f event \<Rightarrow> session \<Rightarrow> run" where
  "main sv tp ev st =
     (let r = (if user_input ev \<noteq> []
               then handle_user_input sv tp (user_input ev) st
               else \<lparr> state = st, written = [], requests = [], raised = None \<rparr>)
      in if raised r \<noteq> None then r
         else if upload_clicked ev
         then r\<lparr> state := fst (upload sv (pdf_files ev) (initialize (state r))),
                 written := written r @ [WriteHtml (css tp)],
                 raised := snd (upload sv (pdf_files ev) (initialize (state r))) \<rparr>
         else r\<lparr> state := initialize (state r),
                 written := written r @ [WriteHtml (css tp)] \<rparr>)"

subsection \<open>A test double for the collaborators\<close>

text \<open>
  For evaluating the module on concrete inputs: an uploaded file is \<open>None\<close> when it is
  corrupt and \<open>Some pages\<close> otherwise, a page is the text it holds; building an index
  from no chunk at all raises, every other constructor succeeds; retrieval returns the
  first chunk of the index; the language model answers with the question in brackets.
\<close>

definition fake_services :: "(string list option, string) services" where
  "fake_services =
     \<lparr> PdfReader = (\<lambda>pdf. case pdf of None \<Rightarrow> Inl (Raised ''PdfReadError'') | Some ps \<Rightarrow> Inr ps),
       extract_text = (\<lambda>page. Inr page),
       embeddings_raises = (\<lambda>name. None),
       from_texts_raises = (\<lambda>ts emb. if ts = [] then Some (Raised ''IndexError'') else None),
       hub_raises = (\<lambda>repo kw. None),
       similarity_search = (\<lambda>vs q. Inr (take 1 (texts vs))),
       generate = (\<lambda>m p. Inr (''['' @ prompt_question p @ '']'')) \<rparr>"

definition fake_templates :: templates where
  "fake_templates =
     \<lparr> css = ''<style></style>'', bot_template = ''<bot>{{MSG}}</bot>'',
       user_template = ''<user>{{MSG}}</user>'' \<rparr>"

text \<open>The chain that an upload of one document with the text \<open>new text\<close> builds.\<close>

definition new_chain :: chain where
  "new_chain =
     \<lparr> llm = HuggingFaceHub ''google/flan-t5-xxl'' \<lparr> temperature = 1 / 2, max_length = 512 \<rparr>,
       retriever = FAISS [''new text''] (HuggingFaceInstructEmbeddings ''hkunlp/instructor-xl''),
       memory = \<lparr> memory_key = ''chat_history'', return_messages = True, messages = [] \<rparr> \<rparr>"

text \<open>A session in which a document was uploaded and one question was answered.\<close>

definition old_session :: session where
  "old_session =
     \<lparr> convo_chain = Some (Some
         \<lparr> llm = HuggingFaceHub ''google/flan-t5-xxl'' \<lparr> temperature = 1 / 2, max_length = 512 \<rparr>,
           retriever = FAISS [''old text''] (HuggingFaceInstructEmbeddings ''hkunlp/instructor-xl''),
           memory = \<lparr> memory_key = ''chat_history'', return_messages = True,
                      messages = [HumanMessage ''q'', AIMessage ''[q]''] \<rparr> \<rparr>),
       chat_history = Some [HumanMessage ''q'', AIMessage ''[q]''] \<rparr>"


section \<open>Text extraction\<close>

lemma pages_loop_ok:
  "\<forall>page\<in>set ps. extract_text sv page = Inr (content_of page) \<Longrightarrow>
   pages_loop sv text ps = Inr (text @ concat (map content_of ps))"
  by (induction ps arbitrary: "text") simp_all

lemma pdf_loop_ok:
  "\<forall>pdf\<in>set fs. PdfReader sv pdf = Inr (pages pdf) \<and>
      (\<forall>page\<in>set (pages pdf). extract_text sv page = Inr (content_of page)) \<Longrightarrow>
   pdf_loop sv text fs = Inr (text @ concat (map (\<lambda>pdf. concat (map content_of (pages pdf))) fs))"
proof (induction fs arbitrary: "text")
  case Nil
  show ?case by simp
next
  case (Cons pdf fs)
  from Cons.prems have rd: "PdfReader sv pdf = Inr (pages pdf)"
    and pg: "\<forall>page\<in>set (pages pdf). extract_text sv page = Inr (content_of page)"
    and rest: "\<forall>pdf\<in>set fs. PdfReader sv pdf = Inr (pages pdf) \<and>
      (\<forall>page\<in>set (pages pdf). extract_text sv page = Inr (content_of page))"
    by simp_all
  show ?case
    using rd pages_loop_ok [OF pg, of "text"] Cons.IH [OF rest] by simp
qed



text \<open>
  C10. For an empty sequence of uploaded files \<open>get_pdf_text\<close> returns the empty string
  and raises nothing. When every document can be read (\<open>pages pdf\<close> are its pages, in the
  reader's order) and every page yields a text (\<open>content_of page\<close>), the result is the
  concatenation of the page texts, pages in their order within each document and
  documents in the order of the list passed in.
\<close>

theorem get_pdf_text_concat:
  "get_pdf_text sv [] = Inr [] \<and>
   ((\<forall>pdf\<in>set files. PdfReader sv pdf = Inr (pages pdf) \<and>
        (\<forall>page\<in>set (pages pdf). extract_text sv page = Inr (content_of page))) \<longrightarrow>
    get_pdf_text sv files =
      Inr (concat (map (\<lambda>pdf. concat (map content_of (pages pdf))) files)))"
  using pdf_loop_ok [of files sv pages content_of "[]"] by (simp add: get_pdf_text_def)

theorem get_pdf_text_concat_witness:
  "get_pdf_text fake_services [] = Inr [] \<and>
   get_pdf_text fake_services [Some [''ab'', ''c''], Some [], Some [''de'']] = Inr ''abcde''"
  using get_pdf_text_concat [of fake_services "[Some [''ab'', ''c''], Some [], Some [''de'']]" the id]
  by (simp add: fake_services_def)





section \<open>A question before any upload\<close>

text \<open>
  C2, as stated, fails in its first part: with \<open>convo_chain\<close> set to \<^verbatim>\<open>None\<close>,
  \<open>handle_user_input\<close> does not fail. The run ends with no exception.
\<close>

theorem handle_user_input_empty_counterexample:
  "raised (handle_user_input fake_services fake_templates ''What is a chunk?''
     \<lparr> convo_chain = Some None, chat_history = None \<rparr>) = None"
  by (simp add: handle_user_input_def)

text \<open>
  C2, amended. For every question, every behaviour of the services and every session
  whose \<open>convo_chain\<close> is \<^verbatim>\<open>None\<close> (no successful upload yet), \<open>handle_user_input\<close>
  returns normally, raising nothing; it sends no request to the generation service,
  leaves the session state as it was, and writes the one line asking the user to upload
  a PDF first.
\<close>

theorem handle_user_input_empty:
  "convo_chain st = Some None \<Longrightarrow>
   handle_user_input sv tp question st =
     \<lparr> state = st, written = [Write ''Please upload a PDF first!''], requests = [],
       raised = None \<rparr>"
  by (simp add: handle_user_input_def)

theorem handle_user_input_empty_witness:
  "handle_user_input fake_services fake_templates ''What is a chunk?''
     \<lparr> convo_chain = Some None, chat_history = None \<rparr> =
   \<lparr> state = \<lparr> convo_chain = Some None, chat_history = None \<rparr>,
     written = [Write ''Please upload a PDF first!''], requests = [], raised = None \<rparr>"
  using handle_user_input_empty [of "\<lparr> convo_chain = Some None, chat_history = None \<rparr>"
    fake_services fake_templates "''What is a chunk?''"]
  by simp

section \<open>The upload pipeline\<close>

lemma get_convo_chain_fresh:
  "get_convo_chain sv vs = Inr c \<Longrightarrow> messages (memory c) = [] \<and> retriever c = vs"
  by (auto simp: get_convo_chain_def split: option.splits)

lemma get_vector_store_texts: "get_vector_store sv chunks = Inr vs \<Longrightarrow> texts vs = chunks"
  by (auto simp: get_vector_store_def split: option.splits)

lemma upload_ok:
  "snd (upload sv files st) = None \<Longrightarrow>
   \<exists>raw_text text_chunks c.
     get_pdf_text sv files = Inr raw_text \<and> get_text_chunks raw_text = Inr text_chunks \<and>
     get_vector_store sv text_chunks = Inr (retriever c) \<and>
     get_convo_chain sv (retriever c) = Inr c \<and>
     fst (upload sv files st) = st\<lparr> convo_chain := Some (Some c) \<rparr>"
  by (auto simp: upload_def split: sum.splits dest: get_convo_chain_fresh)

lemma upload_independent:
  "snd (upload sv files st') = snd (upload sv files st) \<and>
   (snd (upload sv files st) = None \<longrightarrow>
      convo_chain (fst (upload sv files st')) = convo_chain (fst (upload sv files st)))"
  by (simp add: upload_def split: sum.splits)

lemma main_upload_state:
  "upload_clicked ev \<Longrightarrow> raised (main sv tp ev st) = None \<Longrightarrow>
   \<exists>st'. state (main sv tp ev st) = fst (upload sv (pdf_files ev) st') \<and>
         snd (upload sv (pdf_files ev) st') = None"
  by (auto simp: main_def Let_def split: if_splits)



lemma main_reupload_value:
  "main fake_services fake_templates
      \<lparr> user_input = [], pdf_files = [Some [''new text'']], upload_clicked = True \<rparr> old_session =
   \<lparr> state = \<lparr> convo_chain = Some (Some new_chain),
               chat_history = Some [HumanMessage ''q'', AIMessage ''[q]''] \<rparr>,
     written = [WriteHtml ''<style></style>''], requests = [], raised = None \<rparr>"
  by code_simp

text \<open>
  C6. A run of \<open>main\<close> started by the Upload button that ends without an exception
  stores a chain built from the uploaded files alone, whatever the session held before
  (a chain with its index and any number of turns, or nothing): its memory holds no
  message, the texts of its index are the chunks of the text of the files of this
  upload, and it is the very chain that the same upload stores in a session that never
  held anything. The chain stored before is overwritten.
\<close>

theorem reupload_replaces_engine:
  "upload_clicked ev \<Longrightarrow> raised (main sv tp ev st) = None \<Longrightarrow>
   \<exists>raw_text text_chunks c.
     get_pdf_text sv (pdf_files ev) = Inr raw_text \<and>
     get_text_chunks raw_text = Inr text_chunks \<and>
     convo_chain (state (main sv tp ev st)) = Some (Some c) \<and>
     messages (memory c) = [] \<and>
     texts (retriever c) = text_chunks \<and>
     convo_chain (state (main sv tp (ev\<lparr> user_input := [] \<rparr>)
        \<lparr> convo_chain = None, chat_history = None \<rparr>)) = Some (Some c)"
proof -
  assume up: "upload_clicked ev" and ok: "raised (main sv tp ev st) = None"
  from main_upload_state [OF up ok] obtain st' where
    st': "state (main sv tp ev st) = fst (upload sv (pdf_files ev) st')"
    and ok': "snd (upload sv (pdf_files ev) st') = None" by blast
  from upload_ok [OF ok'] obtain raw_text text_chunks c where
    a: "get_pdf_text sv (pdf_files ev) = Inr raw_text"
    and b: "get_text_chunks raw_text = Inr text_chunks"
    and v: "get_vector_store sv text_chunks = Inr (retriever c)"
    and g: "get_convo_chain sv (retriever c) = Inr c"
    and f: "fst (upload sv (pdf_files ev) st') = st'\<lparr> convo_chain := Some (Some c) \<rparr>"
    by blast
  let ?blank = "initialize \<lparr> convo_chain = None, chat_history = None \<rparr>"
  have ind: "snd (upload sv (pdf_files ev) ?blank) = None \<and>
      convo_chain (fst (upload sv (pdf_files ev) ?blank)) =
      convo_chain (fst (upload sv (pdf_files ev) st'))"
    using upload_independent [of sv "pdf_files ev" ?blank st'] ok' by simp
  have blank: "convo_chain (state (main sv tp (ev\<lparr> user_input := [] \<rparr>)
        \<lparr> convo_chain = None, chat_history = None \<rparr>)) = Some (Some c)"
    using up ind f by (simp add: main_def Let_def)
  show ?thesis
    using a b get_convo_chain_fresh [OF g] get_vector_store_texts [OF v] st' f blank
    by auto
qed

theorem reupload_replaces_engine_witness:
  "upload_clicked \<lparr> user_input = [], pdf_files = [Some [''new text'']], upload_clicked = True \<rparr> \<and>
   raised (main fake_services fake_templates
      \<lparr> user_input = [], pdf_files = [Some [''new text'']], upload_clicked = True \<rparr>
      old_session) = None \<and>
   (\<exists>c. convo_chain (state (main fake_services fake_templates
      \<lparr> user_input = [], pdf_files = [Some [''new text'']], upload_clicked = True \<rparr>
      old_session)) = Some (Some c) \<and> messages (memory c) = [] \<and>
      texts (retriever c) = [''new text''])"
proof -
  let ?ev = "\<lparr> user_input = [], pdf_files = [Some [''new text'']], upload_clicked = True \<rparr>"
  have up: "upload_clicked ?ev" by simp
  have ok: "raised (main fake_services fake_templates ?ev old_session) = None"
    by (simp add: main_reupload_value)
  have tx: "get_pdf_text fake_services (pdf_files ?ev) = Inr ''new text''"
    by (simp add: get_pdf_text_def fake_services_def)
  have ch: "get_text_chunks ''new text'' = Inr [''new text'']" by code_simp
  from reupload_replaces_engine [OF up ok] tx ch up ok show ?thesis by auto
qed

section \<open>The stored chain across runs\<close>

text \<open>
  Lines 92 and 93 test the key \<^verbatim>\<open>chat_history\<close> and assign \<^verbatim>\<open>convo_chain\<close>. The key
  \<^verbatim>\<open>chat_history\<close> is set only by \<open>handle_user_input\<close>, once a question has been
  answered. So a run with an empty question box and no click on Upload keeps the stored
  chain when a question has been answered before, and sets it to \<^verbatim>\<open>None\<close> when none has.
\<close>

lemma idle_rerun_keeps_engine:
  "chat_history st \<noteq> None \<Longrightarrow> convo_chain st \<noteq> None \<Longrightarrow> user_input ev = [] \<Longrightarrow>
   \<not> upload_clicked ev \<Longrightarrow> state (main sv tp ev st) = st"
  by (auto simp: main_def initialize_def Let_def)

lemma idle_rerun_clears_engine:
  "chat_history st = None \<Longrightarrow> user_input ev = [] \<Longrightarrow> \<not> upload_clicked ev \<Longrightarrow>
   convo_chain (state (main sv tp ev st)) = Some None"
  by (simp add: main_def initialize_def Let_def)

text \<open>
  C1 does not hold of the code. In a new session, a first run uploads one document
  with an empty question box, and stores its chain. The next run is started by adding a
  second file to the uploader: the question box is empty and Upload is not clicked.
  After it the stored chain is \<^verbatim>\<open>None\<close>.
\<close>

theorem engine_lost_on_rerun_before_first_question:
  "convo_chain (state (main fake_services fake_templates
      \<lparr> user_input = [], pdf_files = [Some [''new text'']], upload_clicked = True \<rparr>
      \<lparr> convo_chain = None, chat_history = None \<rparr>)) = Some (Some new_chain) \<and>
   convo_chain (state (main fake_services fake_templates
      \<lparr> user_input = [], pdf_files = [Some [''new text''], Some [''more'']],
        upload_clicked = False \<rparr>
      (state (main fake_services fake_templates
         \<lparr> user_input = [], pdf_files = [Some [''new text'']], upload_clicked = True \<rparr>
         \<lparr> convo_chain = None, chat_history = None \<rparr>)))) = Some None"
  by code_simp

section \<open>Two questions\<close>






section \<open>The chunks of a text\<close>

lemma split_from_no_sep: "c \<notin> set s \<Longrightarrow> split_from 0 [c] cur s = [cur @ s]"
  by (induction s arbitrary: cur) auto





lemma join_Cons: "join sep (d # ds) = (if ds = [] then d else d @ sep @ join sep ds)"
  by (cases ds) auto

lemma join_nonempty: "\<forall>d\<in>set ds. d \<noteq> [] \<Longrightarrow> ds \<noteq> [] \<Longrightarrow> join sep ds \<noteq> []"
  by (cases ds) (auto simp: join_Cons)





lemma merge_loop_append:
  "cur = [] \<or> tot + int (length d) + int (length sep) \<le> cs \<Longrightarrow>
   merge_loop cs co sep (d # splits) docs cur tot =
     merge_loop cs co sep splits docs (cur @ [d])
       (tot + int (length d) + (if cur \<noteq> [] then int (length sep) else 0))"
  by auto



declare merge_loop.simps(2) [simp del] group_loop.simps(2) [simp del]







lemma dropWhile_hd: "s \<noteq> [] \<Longrightarrow> \<not> P (hd s) \<Longrightarrow> dropWhile P s = s"
  by (cases s) simp_all

lemma strip_id: "s \<noteq> [] \<Longrightarrow> \<not> isspace (hd s) \<Longrightarrow> \<not> isspace (last s) \<Longrightarrow> strip s = s"
  by (simp add: strip_def dropWhile_hd hd_rev)

lemma no_separator_one_chunk:
  "CHR 0x0A \<notin> set raw_text \<Longrightarrow>
   get_text_chunks raw_text = Inr (if strip raw_text = [] then [] else [strip raw_text])"
proof -
  assume "CHR 0x0A \<notin> set raw_text"
  then have u: "split_units raw_text [CHR 0x0A] = (if raw_text = [] then [] else [raw_text])"
    using split_from_no_sep [of "CHR 0x0A" raw_text "[]"] by (simp add: split_units_def)
  have e: "strip [] = []" by (simp add: strip_def)
  show ?thesis
  proof (cases "raw_text = []")
    case True
    with u e show ?thesis
      by (simp add: get_text_chunks_def split_text_def merge_splits_def emitted_def join_docs_def)
  next
    case False
    have "merge_loop 1000 200 [CHR 0x0A] [raw_text] [] [] 0 =
          merge_loop 1000 200 [CHR 0x0A] [] [] [raw_text] (0 + int (length raw_text) + 0)"
      using merge_loop_append [of "[]" 0 raw_text "[CHR 0x0A]" 1000 200 "[]" "[]"] by simp
    with u False show ?thesis
      by (simp add: get_text_chunks_def split_text_def merge_splits_def emitted_def join_docs_def)
  qed
qed






lemma notspace_letters:
  "\<not> isspace (CHR ''a'')" "\<not> isspace (CHR ''x'')" "\<not> isspace (CHR ''y'')" "\<not> isspace (CHR ''z'')"
  by (simp_all add: isspace_def)










text \<open>
  C3, amended. A text of 2500 characters that holds no separator is one unit, and a
  unit is never cut: \<open>get_text_chunks\<close> returns exactly one chunk, the text stripped of
  the white space at its two ends (no chunk when the text is white space only). When
  the text neither begins nor ends with white space the chunk is the text itself, 2500
  characters long.
\<close>

theorem unbroken_text_one_chunk:
  "length raw_text = 2500 \<Longrightarrow> CHR 0x0A \<notin> set raw_text \<Longrightarrow>
   get_text_chunks raw_text = Inr (if strip raw_text = [] then [] else [strip raw_text]) \<and>
   (\<not> isspace (hd raw_text) \<and> \<not> isspace (last raw_text) \<longrightarrow>
      get_text_chunks raw_text = Inr [raw_text])"
proof -
  assume l: "length raw_text = 2500" and n: "CHR 0x0A \<notin> set raw_text"
  from l have ne: "raw_text \<noteq> []" by auto
  show ?thesis
    using no_separator_one_chunk [OF n] strip_id [OF ne] ne by auto
qed

theorem unbroken_text_one_chunk_witness:
  "length (CHR '' '' # replicate 2499 (CHR ''x'')) = 2500 \<and>
   CHR 0x0A \<notin> set (CHR '' '' # replicate 2499 (CHR ''x'')) \<and>
   get_text_chunks (CHR '' '' # replicate 2499 (CHR ''x'')) = Inr [replicate 2499 (CHR ''x'')]"
proof -
  let ?t = "CHR '' '' # replicate 2499 (CHR ''x'')"
  have l: "length ?t = 2500" by simp
  have n: "CHR 0x0A \<notin> set ?t" by simp
  have "strip (replicate 2499 (CHR ''x'')) = replicate 2499 (CHR ''x'')"
    by (rule strip_id) (simp_all add: notspace_letters)
  moreover have "strip ?t = strip (replicate 2499 (CHR ''x''))"
    by (simp add: strip_def isspace_def)
  ultimately have s: "strip ?t = replicate 2499 (CHR ''x'')" by simp
  from unbroken_text_one_chunk [OF l n] l n s show ?thesis by simp
qed

text \<open>
  C3, as stated, fails: the text of 2500 letters \<open>a\<close> holds no separator, and
  \<open>get_text_chunks\<close> returns it whole, as one chunk of 2500 characters, not as three
  chunks of 1000, 1000 and 700.
\<close>

theorem unbroken_text_counterexample:
  "get_text_chunks (replicate 2500 (CHR ''a'')) = Inr [replicate 2500 (CHR ''a'')]"
proof -
  have "strip (replicate 2500 (CHR ''a'')) = replicate 2500 (CHR ''a'')"
    by (rule strip_id) (simp_all add: notspace_letters)
  then show ?thesis
    using no_separator_one_chunk [of "replicate 2500 (CHR ''a'')"] by simp
qed



end
